theory Spec2Isabelle
  imports Complex_Main
begin

section \<open>Runway beam design tool: data model\<close>

text \<open>
  A shallow embedding of the analysis core of \<^verbatim>\<open>runway_beam_v3_6.py\<close>.
  Python floats are idealised as real numbers (no rounding, no infinities, no NaN);
  a Python exception is a value \<open>Inl e\<close> of a sum type. Every definition names the
  source function it embeds.
\<close>

datatype py_error = ZeroDivisionError | ValueError

text \<open>\<^verbatim>\<open>math.sqrt\<close> raises \<^verbatim>\<open>ValueError\<close> on a negative argument.\<close>

definition py_sqrt :: "real \<Rightarrow> py_error + real" where
  "py_sqrt x = (if x < 0 then Inl ValueError else Inr (sqrt x))"

text \<open>Float division raises \<^verbatim>\<open>ZeroDivisionError\<close> on a zero divisor.\<close>

definition py_div :: "real \<Rightarrow> real \<Rightarrow> py_error + real" where
  "py_div x y = (if y = 0 then Inl ZeroDivisionError else Inr (x / y))"

definition E_STEEL :: real where
  "E_STEEL = 200000"

definition GRAVITY :: real where
  "GRAVITY = 981 / 100"

subsection \<open>Wheel positions and load cases\<close>

record WheelPos =
  crane_id_w :: int
  wheel_id :: int
  pos :: real
  Pv :: real
  Ph :: real

text \<open>
  The description of a load case is an f-string in the source. The model keeps one
  constructor per format string, with the interpolated values as arguments
  (the crane identifier and the capacity in tonnes, unformatted); \<open>NoDesc\<close> is the
  empty string that \<^verbatim>\<open>analyze_load\<close> writes.
\<close>

datatype case_desc =
    NoDesc
  | SingleMaxM int real
  | SingleMaxVLeft int real
  | SingleMaxVRight int real
  | TwoMaxM real real
  | TwoMaxV_C1
  | TwoMaxV_C2
  | TwoMaxReaction
  | TwoMaxV_Heavy
  | ThreeMaxM
  | ThreeMaxV_HeavyFirst

record LoadCase =
  desc :: case_desc
  wheels :: "WheelPos list"
  M_max :: real
  M_pos :: real
  V_max :: real
  V_pos :: real
  R_left :: real
  R_right :: real
  positions :: "real list"
  moments :: "real list"
  shears :: "real list"

section \<open>Simple-beam analysis of one wheel placement\<close>

text \<open>
  Python's \<^verbatim>\<open>max(iterable, key=f)\<close> keeps the first element whose key is
  largest: the running best is replaced only by a strictly larger key.
\<close>

fun argmax_first :: "('a \<Rightarrow> real) \<Rightarrow> 'a \<Rightarrow> 'a list \<Rightarrow> 'a" where
  "argmax_first key best [] = best"
| "argmax_first key best (x # xs) =
     argmax_first key (if key x > key best then x else best) xs"

text \<open>
  \<^verbatim>\<open>max(range(n), key=f)\<close> for \<open>n \<ge> 1\<close>; in \<^verbatim>\<open>analyze_load\<close> the range is
  never empty, because the list of points always contains \<open>0\<close>.
\<close>

definition max_index :: "(nat \<Rightarrow> real) \<Rightarrow> nat \<Rightarrow> nat" where
  "max_index key n = argmax_first key 0 [1..<n]"

text \<open>
  \<^verbatim>\<open>pts = sorted(set([0] + [w.pos for w in wheels] + [L] + [i*L/100 for i in range(101)]))\<close>
\<close>

definition sample_points :: "real \<Rightarrow> WheelPos list \<Rightarrow> real list" where
  "sample_points L ws =
     sorted_list_of_set
       (set ([0] @ map pos ws @ [L] @ map (\<lambda>i. real i * L / 100) [0..<101]))"

text \<open>The inner loop over the wheels, for the moment and for the shear at \<open>x\<close>.\<close>

definition moment_at :: "real \<Rightarrow> WheelPos list \<Rightarrow> real \<Rightarrow> real" where
  "moment_at R_l ws x =
     fold (\<lambda>w M. if pos w < x then M - Pv w * (x - pos w) else M) ws (R_l * x)"

definition shear_at :: "real \<Rightarrow> WheelPos list \<Rightarrow> real \<Rightarrow> real" where
  "shear_at R_l ws x =
     fold (\<lambda>w V. if pos w \<le> x then V - Pv w else V) ws R_l"

text \<open>\<^verbatim>\<open>analyze_load(L, wheels)\<close>; \<open>None\<close> is Python's \<^verbatim>\<open>None\<close>.\<close>

definition analyze_load :: "real \<Rightarrow> WheelPos list \<Rightarrow> LoadCase option" where
  "analyze_load L ws =
     (if ws = [] then None
      else
        let sum_P = sum_list (map Pv ws);
            sum_M = sum_list (map (\<lambda>w. Pv w * pos w) ws);
            R_r = sum_M / max L 0.1;
            R_l = sum_P - R_r;
            pts = sample_points L ws;
            M_list = map (moment_at R_l ws) pts;
            V_list = map (shear_at R_l ws) pts;
            m_idx = max_index (\<lambda>i. \<bar>M_list ! i\<bar>) (length M_list);
            v_idx = max_index (\<lambda>i. \<bar>V_list ! i\<bar>) (length V_list)
        in Some \<lparr>desc = NoDesc, wheels = ws,
                 M_max = M_list ! m_idx, M_pos = pts ! m_idx,
                 V_max = \<bar>V_list ! v_idx\<bar>, V_pos = pts ! v_idx,
                 R_left = R_l, R_right = R_r,
                 positions = pts, moments = M_list, shears = V_list\<rparr>)"

section \<open>Crane wheel-load model\<close>

record CraneData =
  crane_id :: int
  capacity_tonnes :: real
  bridge_weight :: real
  trolley_weight :: real
  bridge_span :: real
  min_hook_approach :: real
  wheel_base :: real
  buffer_left :: real
  buffer_right :: real
  num_wheels :: int
  impact_v :: real
  impact_h :: real
  impact_l :: real
  use_direct_input :: bool
  direct_max_wheel_load :: real
  direct_min_wheel_load :: real
  direct_lateral_load :: real
  R_max :: real
  R_min :: real
  max_wheel_load :: real
  min_wheel_load :: real

text \<open>The default values of the dataclass fields.\<close>

definition CraneData_init :: CraneData where
  "CraneData_init =
     \<lparr>crane_id = 1, capacity_tonnes = 10.0, bridge_weight = 5.0, trolley_weight = 0.72,
      bridge_span = 15.0, min_hook_approach = 1.0, wheel_base = 2.2,
      buffer_left = 0.29, buffer_right = 0.29, num_wheels = 2,
      impact_v = 0.25, impact_h = 0.20, impact_l = 0.10,
      use_direct_input = False, direct_max_wheel_load = 0, direct_min_wheel_load = 0,
      direct_lateral_load = 0, R_max = 0, R_min = 0, max_wheel_load = 0,
      min_wheel_load = 0\<rparr>"

text \<open>
  \<^verbatim>\<open>CraneData.calc_wheel_loads\<close>. The method stores its results in the object and
  returns \<^verbatim>\<open>(max_wheel_load, min_wheel_load)\<close>; the model returns the updated
  object. The two divisions (by the bridge span and by the wheel count) raise on zero.
\<close>

definition calc_wheel_loads :: "CraneData \<Rightarrow> py_error + CraneData" where
  "calc_wheel_loads c =
     (if use_direct_input c \<and> direct_max_wheel_load c > 0 then
        let mx = direct_max_wheel_load c;
            mn = (if direct_min_wheel_load c > 0 then direct_min_wheel_load c
                  else direct_max_wheel_load c * 0.2)
        in Inr (c\<lparr>max_wheel_load := mx, min_wheel_load := mn,
                  R_max := mx * of_int (num_wheels c),
                  R_min := mn * of_int (num_wheels c)\<rparr>)
      else
        let Lb = bridge_span c;
            e_min = min_hook_approach c;
            P_lift = capacity_tonnes c * GRAVITY;
            P_trolley = trolley_weight c * GRAVITY;
            P_bridge = bridge_weight c * GRAVITY;
            R_bridge_each = P_bridge / 2;
            P_moving = P_lift + P_trolley
        in if Lb = 0 then Inl ZeroDivisionError
           else
             let R_moving_max = P_moving * (Lb - e_min) / Lb;
                 Rmax = R_bridge_each + R_moving_max;
                 R_moving_min = P_moving * e_min / Lb;
                 Rmin = R_bridge_each + R_moving_min
             in if num_wheels c = 0 then Inl ZeroDivisionError
                else Inr (c\<lparr>R_max := Rmax, R_min := Rmin,
                          max_wheel_load := Rmax / of_int (num_wheels c),
                          min_wheel_load := Rmin / of_int (num_wheels c)\<rparr>))"

text \<open>
  \<^verbatim>\<open>wheel_load_with_impact\<close> and \<^verbatim>\<open>lateral_per_wheel\<close>. The first recomputes the
  stored loads before it reads them, so its value depends on the inputs only.
\<close>

definition wheel_load_with_impact :: "CraneData \<Rightarrow> py_error + real" where
  "wheel_load_with_impact c =
     (case calc_wheel_loads c of
        Inl e \<Rightarrow> Inl e
      | Inr c' \<Rightarrow> Inr (max_wheel_load c' * (1 + impact_v c')))"

definition lateral_per_wheel :: "CraneData \<Rightarrow> py_error + real" where
  "lateral_per_wheel c =
     (if use_direct_input c \<and> direct_lateral_load c > 0 then Inr (direct_lateral_load c)
      else
        let P_lift = capacity_tonnes c * GRAVITY;
            P_trolley = trolley_weight c * GRAVITY;
            H_total = impact_h c * (P_lift + P_trolley)
        in py_div H_total (2 * of_int (num_wheels c)))"

section \<open>Moving-load envelope: critical load cases\<close>

text \<open>\<^verbatim>\<open>np.linspace(start, stop, num)\<close>: \<open>num\<close> evenly spaced samples, both ends included.\<close>

definition linspace :: "real \<Rightarrow> real \<Rightarrow> nat \<Rightarrow> real list" where
  "linspace start stop num =
     map (\<lambda>i. start + real i * ((stop - start) / real (num - 1))) [0..<num]"

text \<open>
  The wheels of one crane with its first wheel at \<open>p\<close>:
  \<^verbatim>\<open>WheelPos(cid, w+1, p + w*c.wheel_base, Pv, Ph) for w in range(c.num_wheels)\<close>.
\<close>

definition crane_wheels :: "int \<Rightarrow> CraneData \<Rightarrow> real \<Rightarrow> real \<Rightarrow> real \<Rightarrow> WheelPos list" where
  "crane_wheels cid c p pv ph =
     map (\<lambda>w. \<lparr>crane_id_w = cid, wheel_id = int w + 1,
               pos = p + real w * wheel_base c, Pv = pv, Ph = ph\<rparr>)
         [0..<nat (num_wheels c)]"

text \<open>
  The search loops: \<^verbatim>\<open>if case and abs(case.M_max) > best_M\<close>, starting from
  \<^verbatim>\<open>best_M, best_case = 0, None\<close>, and the same for the larger reaction.
\<close>

definition keep_max_M :: "LoadCase option \<Rightarrow> real \<times> LoadCase option \<Rightarrow> real \<times> LoadCase option" where
  "keep_max_M cs st =
     (case cs of
        None \<Rightarrow> st
      | Some lc \<Rightarrow> if \<bar>M_max lc\<bar> > fst st then (\<bar>M_max lc\<bar>, Some lc) else st)"

definition search_max_M :: "LoadCase option list \<Rightarrow> LoadCase option" where
  "search_max_M cs = snd (fold keep_max_M cs (0, None))"

definition keep_max_R :: "LoadCase option \<Rightarrow> real \<times> LoadCase option \<Rightarrow> real \<times> LoadCase option" where
  "keep_max_R cs st =
     (case cs of
        None \<Rightarrow> st
      | Some lc \<Rightarrow>
          let max_R = max (R_left lc) (R_right lc)
          in if max_R > fst st then (max_R, Some lc) else st)"

definition search_max_R :: "LoadCase option list \<Rightarrow> LoadCase option" where
  "search_max_R cs = snd (fold keep_max_R cs (0, None))"

text \<open>\<^verbatim>\<open>if case: case.desc = ...; results.append(case)\<close>\<close>

definition labelled :: "case_desc \<Rightarrow> LoadCase option \<Rightarrow> LoadCase list" where
  "labelled dsc cs = (case cs of None \<Rightarrow> [] | Some lc \<Rightarrow> [lc\<lparr>desc := dsc\<rparr>])"

text \<open>The body of the loop over single cranes.\<close>

definition single_crane_cases :: "real \<Rightarrow> CraneData \<Rightarrow> real \<Rightarrow> real \<Rightarrow> LoadCase list" where
  "single_crane_cases L c pv ph =
     (let crane_length = wheel_base c * of_int (num_wheels c - 1)
      in if crane_length > L then []
         else
           let best_case = search_max_M
                 (map (\<lambda>p. analyze_load L (crane_wheels (crane_id c) c p pv ph))
                      (linspace 0 (L - crane_length) 60));
               left_case = analyze_load L (crane_wheels (crane_id c) c 0 pv ph);
               pos_right = L - crane_length;
               right_case = analyze_load L (crane_wheels (crane_id c) c pos_right pv ph)
           in labelled (SingleMaxM (crane_id c) (capacity_tonnes c)) best_case
              @ labelled (SingleMaxVLeft (crane_id c) (capacity_tonnes c)) left_case
              @ labelled (SingleMaxVRight (crane_id c) (capacity_tonnes c)) right_case)"

text \<open>
  The two-crane section, for \<^verbatim>\<open>c1, c2 = cranes[0], cranes[1]\<close>. The wheels of these
  cases carry the literal crane numbers 1 and 2, except in the last case, which
  copies the identifiers of the cranes.
\<close>

definition two_crane_cases ::
  "real \<Rightarrow> CraneData \<Rightarrow> CraneData \<Rightarrow> real \<Rightarrow> real \<Rightarrow> real \<Rightarrow> real \<Rightarrow> LoadCase list" where
  "two_crane_cases L c1 c2 pv1 ph1 pv2 ph2 =
     (let gap = buffer_right c1 + buffer_left c2;
          c1_length = wheel_base c1 * of_int (num_wheels c1 - 1);
          c2_length = wheel_base c2 * of_int (num_wheels c2 - 1);
          total_needed = c1_length + gap + c2_length
      in if total_needed \<le> L then
           let both_at = (\<lambda>p1. analyze_load L
                            (crane_wheels 1 c1 p1 pv1 ph1
                             @ crane_wheels 2 c2 (p1 + c1_length + gap) pv2 ph2));
               m_case = search_max_M (map both_at (linspace 0 (L - total_needed) 30));
               v1_case = analyze_load L
                           (crane_wheels 1 c1 0 pv1 ph1
                            @ (if (0 + c1_length + gap) + c2_length \<le> L
                               then crane_wheels 2 c2 (0 + c1_length + gap) pv2 ph2 else []));
               v2_case = analyze_load L
                           (crane_wheels 2 c2 0 pv2 ph2
                            @ (if (0 + c2_length + gap) + c1_length \<le> L
                               then crane_wheels 1 c1 (0 + c2_length + gap) pv1 ph1 else []));
               r_case = search_max_R
                          (map both_at
                             (filter (\<lambda>p1. \<not> (p1 + c1_length + gap) + c2_length > L)
                                (linspace 0 (max 0 (L - total_needed)) 40)));
               heavy = (if pv2 > pv1 then (c2, pv2, ph2, c2_length) else (c1, pv1, ph1, c1_length));
               light = (if pv2 > pv1 then (c1, pv1, ph1, c1_length) else (c2, pv2, ph2, c2_length));
               p_light = 0 + snd (snd (snd heavy)) + gap;
               h_case = analyze_load L
                          (crane_wheels (crane_id (fst heavy)) (fst heavy) 0
                             (fst (snd heavy)) (fst (snd (snd heavy)))
                           @ (if p_light + snd (snd (snd light)) \<le> L
                              then crane_wheels (crane_id (fst light)) (fst light) p_light
                                     (fst (snd light)) (fst (snd (snd light)))
                              else []))
           in labelled (TwoMaxM (capacity_tonnes c1) (capacity_tonnes c2)) m_case
              @ labelled TwoMaxV_C1 v1_case
              @ labelled TwoMaxV_C2 v2_case
              @ labelled TwoMaxReaction r_case
              @ labelled TwoMaxV_Heavy h_case
         else [])"

text \<open>
  The three-crane section. \<^verbatim>\<open>crane_loads.sort(key=lambda x: x[1], reverse=True)\<close> is
  a stable sort by decreasing wheel load; the loop then lays the cranes out from the
  left support, keeping only the wheels at positions up to \<open>L\<close>.
\<close>

fun heavy_first_wheels ::
  "real \<Rightarrow> real \<Rightarrow> (CraneData \<times> real \<times> real \<times> real) list \<Rightarrow> WheelPos list" where
  "heavy_first_wheels L p [] = []"
| "heavy_first_wheels L p ((crane, pv, ph, clen) # rest) =
     filter (\<lambda>w. pos w \<le> L) (crane_wheels (crane_id crane) crane p pv ph)
     @ (case rest of
          [] \<Rightarrow> []
        | (next_crane, _) # _ \<Rightarrow>
            heavy_first_wheels L (p + clen + buffer_right crane + buffer_left next_crane) rest)"

definition three_crane_cases ::
  "real \<Rightarrow> CraneData \<Rightarrow> CraneData \<Rightarrow> CraneData \<Rightarrow>
   real \<Rightarrow> real \<Rightarrow> real \<Rightarrow> real \<Rightarrow> real \<Rightarrow> real \<Rightarrow> LoadCase list" where
  "three_crane_cases L c1 c2 c3 pv1 ph1 pv2 ph2 pv3 ph3 =
     (let gap12 = buffer_right c1 + buffer_left c2;
          gap23 = buffer_right c2 + buffer_left c3;
          c1_len = wheel_base c1 * of_int (num_wheels c1 - 1);
          c2_len = wheel_base c2 * of_int (num_wheels c2 - 1);
          c3_len = wheel_base c3 * of_int (num_wheels c3 - 1);
          total_min = c1_len + gap12 + c2_len + gap23 + c3_len
      in if total_min \<le> L then
           let all_at = (\<lambda>p1.
                 let p2 = p1 + c1_len + gap12; p3 = p2 + c2_len + gap23
                 in analyze_load L
                      (crane_wheels 1 c1 p1 pv1 ph1 @ crane_wheels 2 c2 p2 pv2 ph2
                       @ crane_wheels 3 c3 p3 pv3 ph3));
               m_case = search_max_M (map all_at (linspace 0 (L - total_min) 20));
               crane_loads = sort_key (\<lambda>x. - fst (snd x))
                               [(c1, pv1, ph1, c1_len), (c2, pv2, ph2, c2_len), (c3, pv3, ph3, c3_len)];
               v_case = analyze_load L (heavy_first_wheels L 0 crane_loads)
           in labelled ThreeMaxM m_case @ labelled ThreeMaxV_HeavyFirst v_case
         else [])"

text \<open>
  The wheel load with impact and the lateral load of every crane; the first
  exception ends the run. (\<^verbatim>\<open>find_critical\<close> evaluates both for every crane of
  the list, whatever the geometry.)
\<close>

fun crane_demands :: "CraneData list \<Rightarrow> py_error + (real \<times> real) list" where
  "crane_demands [] = Inr []"
| "crane_demands (c # cs) =
     (case wheel_load_with_impact c of
        Inl e \<Rightarrow> Inl e
      | Inr pv \<Rightarrow>
          (case lateral_per_wheel c of
             Inl e \<Rightarrow> Inl e
           | Inr ph \<Rightarrow>
               (case crane_demands cs of
                  Inl e \<Rightarrow> Inl e
                | Inr rest \<Rightarrow> Inr ((pv, ph) # rest))))"

text \<open>\<^verbatim>\<open>find_critical(L, cranes)\<close>\<close>

definition find_critical :: "real \<Rightarrow> CraneData list \<Rightarrow> py_error + LoadCase list" where
  "find_critical L cranes =
     (case crane_demands cranes of
        Inl e \<Rightarrow> Inl e
      | Inr ds \<Rightarrow>
          Inr (concat (map (\<lambda>(c, pv, ph). single_crane_cases L c pv ph) (zip cranes ds))
               @ (case (cranes, ds) of
                    (c1 # c2 # _, (pv1, ph1) # (pv2, ph2) # _) \<Rightarrow>
                      two_crane_cases L c1 c2 pv1 ph1 pv2 ph2
                  | _ \<Rightarrow> [])
               @ (case (cranes, ds) of
                    (c1 # c2 # c3 # _, (pv1, ph1) # (pv2, ph2) # (pv3, ph3) # _) \<Rightarrow>
                      three_crane_cases L c1 c2 c3 pv1 ph1 pv2 ph2 pv3 ph3
                  | _ \<Rightarrow> [])))"

section \<open>Governing-case selector\<close>

text \<open>
  \<^verbatim>\<open>get_governing(results)\<close> returns a dictionary with the keys \<^verbatim>\<open>'moment'\<close>,
  \<^verbatim>\<open>'shear'\<close> and \<^verbatim>\<open>'reaction'\<close>, or the empty dictionary for an empty list.
\<close>

datatype gov_key = Moment | Shear | Reaction

definition get_governing :: "LoadCase list \<Rightarrow> (gov_key \<rightharpoonup> LoadCase)" where
  "get_governing results =
     (case results of
        [] \<Rightarrow> Map.empty
      | r # rs \<Rightarrow>
          [Moment \<mapsto> argmax_first (\<lambda>r. \<bar>M_max r\<bar>) r rs,
           Shear \<mapsto> argmax_first (\<lambda>r. V_max r) r rs,
           Reaction \<mapsto> argmax_first (\<lambda>r. max (R_left r) (R_right r)) r rs])"

section \<open>Section property model\<close>

record Section =
  name :: string
  sec_type :: string
  d :: real
  bf_top :: real
  tf_top :: real
  bf_bot :: real
  tf_bot :: real
  tw :: real
  hw :: real
  has_cap :: bool
  cap_name :: string
  cap_A :: real
  cap_Iy :: real
  cap_d :: real
  cap_cy :: real
  A :: real
  Ix :: real
  Iy :: real
  Sx :: real
  Sy :: real
  Zx :: real
  rx :: real
  ry :: real
  rts :: real
  J :: real
  Cw :: real
  ho :: real
  y_bar :: real
  mass :: real

text \<open>The default values of the dataclass fields.\<close>

definition Section_init :: Section where
  "Section_init =
     \<lparr>name = ''Custom'', sec_type = ''built_up'', d = 0, bf_top = 0, tf_top = 0,
      bf_bot = 0, tf_bot = 0, tw = 0, hw = 0, has_cap = False, cap_name = '''',
      cap_A = 0, cap_Iy = 0, cap_d = 0, cap_cy = 0, A = 0, Ix = 0, Iy = 0, Sx = 0,
      Sy = 0, Zx = 0, rx = 0, ry = 0, rts = 0, J = 0, Cw = 0, ho = 0, y_bar = 0,
      mass = 0\<rparr>"

text \<open>
  \<^verbatim>\<open>Section.calc_props\<close> assigns the derived properties one after the other. Each of
  the following definitions is one of these assignments (with the local variables it
  reads), as a function of the geometry; \<open>calc_props\<close> below puts them together in
  the order of the source.
\<close>

definition props_A_I :: "Section \<Rightarrow> real" where
  "props_A_I s = bf_top s * tf_top s + bf_bot s * tf_bot s + hw s * tw s"

definition props_A :: "Section \<Rightarrow> real" where
  "props_A s =
     (if has_cap s \<and> cap_A s > 0 then props_A_I s + cap_A s else props_A_I s)"

definition props_y_bar :: "Section \<Rightarrow> real" where
  "props_y_bar s =
     (let A_tf = bf_top s * tf_top s;
          A_bf = bf_bot s * tf_bot s;
          A_w = hw s * tw s;
          y_tf = tf_bot s + hw s + tf_top s / 2;
          y_bf = tf_bot s / 2;
          y_w = tf_bot s + hw s / 2;
          y_cap = d s + cap_cy s
      in if has_cap s \<and> cap_A s > 0
         then (A_tf * y_tf + A_bf * y_bf + A_w * y_w + cap_A s * y_cap) / props_A s
         else (A_tf * y_tf + A_bf * y_bf + A_w * y_w) / max (props_A_I s) 1)"

definition props_ho :: "Section \<Rightarrow> real" where
  "props_ho s = d s - (tf_top s + tf_bot s) / 2"

definition props_Ix :: "Section \<Rightarrow> real" where
  "props_Ix s =
     (let A_tf = bf_top s * tf_top s;
          A_bf = bf_bot s * tf_bot s;
          A_w = hw s * tw s;
          y_tf = tf_bot s + hw s + tf_top s / 2;
          y_bf = tf_bot s / 2;
          y_w = tf_bot s + hw s / 2;
          y_cap = d s + cap_cy s;
          I_tf = bf_top s * tf_top s ^ 3 / 12 + A_tf * (y_tf - props_y_bar s) ^ 2;
          I_bf = bf_bot s * tf_bot s ^ 3 / 12 + A_bf * (y_bf - props_y_bar s) ^ 2;
          I_w = tw s * hw s ^ 3 / 12 + A_w * (y_w - props_y_bar s) ^ 2;
          I_cap = cap_Iy s + cap_A s * (y_cap - props_y_bar s) ^ 2
      in if has_cap s \<and> cap_A s > 0 then I_tf + I_bf + I_w + I_cap
         else I_tf + I_bf + I_w)"

definition props_Iy :: "Section \<Rightarrow> real" where
  "props_Iy s =
     tf_top s * bf_top s ^ 3 / 12 + tf_bot s * bf_bot s ^ 3 / 12 + hw s * tw s ^ 3 / 12"

definition props_Sx :: "Section \<Rightarrow> real" where
  "props_Sx s =
     (let c_top = (if has_cap s then d s + cap_d s else d s) - props_y_bar s
      in props_Ix s / max c_top 1)"

definition props_Sy :: "Section \<Rightarrow> real" where
  "props_Sy s = props_Iy s / max (max (bf_top s / 2) (bf_bot s / 2)) 1"

definition props_J :: "Section \<Rightarrow> real" where
  "props_J s =
     bf_top s * tf_top s ^ 3 / 3 + bf_bot s * tf_bot s ^ 3 / 3 + hw s * tw s ^ 3 / 3"

definition props_Cw :: "Section \<Rightarrow> real" where
  "props_Cw s = (if props_ho s > 0 then props_Iy s * props_ho s ^ 2 / 4 else 1)"

definition props_mass :: "Section \<Rightarrow> real" where
  "props_mass s =
     (let m = props_A s * 7850 / 1000000
      in if has_cap s then m + cap_A s * 7850 / 1000000 else m)"

text \<open>
  \<^verbatim>\<open>Section.calc_props\<close>. An exception (the division by the area with a cap channel,
  a square root of a negative number) leaves the method before the later properties,
  the plastic modulus among them, are written.
\<close>

definition calc_props :: "Section \<Rightarrow> py_error + Section" where
  "calc_props s =
     (if has_cap s \<and> cap_A s > 0 \<and> props_A s = 0 then Inl ZeroDivisionError
      else
        (case py_sqrt (props_Ix s / max (props_A s) 1) of
           Inl e \<Rightarrow> Inl e
         | Inr rx1 \<Rightarrow>
        (case py_sqrt (props_Iy s / max (props_A s) 1) of
           Inl e \<Rightarrow> Inl e
         | Inr ry1 \<Rightarrow>
        (case py_sqrt (props_Iy s * props_Cw s) of
           Inl e \<Rightarrow> Inl e
         | Inr q \<Rightarrow>
        (case py_sqrt (q / max (props_Sx s) 1) of
           Inl e \<Rightarrow> Inl e
         | Inr rts1 \<Rightarrow>
             Inr (s\<lparr>A := props_A s, y_bar := props_y_bar s, ho := props_ho s,
                     Ix := props_Ix s, Iy := props_Iy s,
                     Sx := props_Sx s, Sy := props_Sy s, rx := rx1, ry := ry1,
                     Zx := props_Sx s * 1.12,
                     J := props_J s, Cw := props_Cw s, rts := rts1,
                     mass := props_mass s\<rparr>))))))"

section \<open>Section classification\<close>

datatype slenderness = Compact | Noncompact | Slender

record compactness =
  flg :: slenderness
  web :: slenderness
  lf :: real
  lpf :: real
  lrf :: real
  lw :: real
  lpw :: real
  lrw :: real

text \<open>
  \<^verbatim>\<open>math.sqrt(E_STEEL / Fy)\<close>: the division raises for \<open>Fy = 0\<close>, the square root
  for a negative quotient.
\<close>

definition sqrt_quot :: "real \<Rightarrow> real \<Rightarrow> py_error + real" where
  "sqrt_quot x y = (if y = 0 then Inl ZeroDivisionError else py_sqrt (x / y))"

text \<open>
  The conditional expression of both classifications:
  \<^verbatim>\<open>'Compact' if l <= lp else ('Noncompact' if l <= lr else 'Slender')\<close>.
\<close>

definition classify :: "real \<Rightarrow> real \<Rightarrow> real \<Rightarrow> slenderness" where
  "classify l lp lr =
     (if l \<le> lp then Compact else if l \<le> lr then Noncompact else Slender)"

text \<open>\<^verbatim>\<open>check_compact(sec, Fy)\<close>\<close>

definition check_compact :: "Section \<Rightarrow> real \<Rightarrow> py_error + compactness" where
  "check_compact sec Fy =
     (case sqrt_quot E_STEEL Fy of
        Inl e \<Rightarrow> Inl e
      | Inr r \<Rightarrow>
          let lf1 = bf_top sec / max (2 * tf_top sec) 1;
              lpf1 = 0.38 * r;
              lrf1 = 1.0 * r;
              flg1 = classify lf1 lpf1 lrf1;
              lw1 = hw sec / max (tw sec) 1;
              lpw1 = 3.76 * r;
              lrw1 = 5.70 * r;
              web1 = classify lw1 lpw1 lrw1
          in Inr \<lparr>flg = flg1, web = web1, lf = lf1, lpf = lpf1, lrf = lrf1,
                  lw = lw1, lpw = lpw1, lrw = lrw1\<rparr>)"

section \<open>Shear strength\<close>








section \<open>Deflection under the wheel loads\<close>

text \<open>
  The local function \<^verbatim>\<open>deflection_at_point(x_load, x_point, P_load)\<close> of
  \<^verbatim>\<open>calc_actual_deflection\<close>, with the variables \<open>E\<close>, \<open>I\<close> and \<open>L_mm\<close> of its
  closure as parameters. It ends with \<^verbatim>\<open>return delta * 1000\<close>.
\<close>

definition deflection_at_point ::
  "real \<Rightarrow> real \<Rightarrow> real \<Rightarrow> real \<Rightarrow> real \<Rightarrow> real \<Rightarrow> py_error + real" where
  "deflection_at_point E I L_mm x_load x_point P_load =
     (let a = x_load;
          b = L_mm - x_load;
          x = x_point
      in if 6 * E * I * L_mm = 0 then Inl ZeroDivisionError
         else
           let delta =
                 (if x \<le> a
                  then P_load * b * x * (L_mm ^ 2 - b ^ 2 - x ^ 2) / (6 * E * I * L_mm)
                  else P_load * a * (L_mm - x) * (L_mm ^ 2 - a ^ 2 - (L_mm - x) ^ 2)
                       / (6 * E * I * L_mm))
           in Inr (delta * 1000))"

text \<open>\<^verbatim>\<open>calc_actual_deflection(sec, wheel_loads, L, wheel_base)\<close>\<close>

definition calc_actual_deflection ::
  "Section \<Rightarrow> real list \<Rightarrow> real \<Rightarrow> real \<Rightarrow> py_error + real" where
  "calc_actual_deflection sec wheel_loads L wb =
     (let E = E_STEEL;
          I = Ix sec;
          L_mm = L * 1000;
          wb_mm = wb * 1000;
          P = sum_list wheel_loads
      in (case wheel_loads of
            [P1, P2] \<Rightarrow>
              let x_resultant = (if P > 0 then (P2 * wb_mm) / P else wb_mm / 2);
                  x1_mid = L_mm / 2 - x_resultant;
                  x1_opt = max 0 (min x1_mid (L_mm - wb_mm));
                  x2_opt = x1_opt + wb_mm;
                  P1_N = P1 * 1000;
                  P2_N = P2 * 1000
              in (case deflection_at_point E I L_mm x1_opt (L_mm / 2) P1_N of
                    Inl e \<Rightarrow> Inl e
                  | Inr delta1 \<Rightarrow>
                      (case deflection_at_point E I L_mm x2_opt (L_mm / 2) P2_N of
                         Inl e \<Rightarrow> Inl e
                       | Inr delta2 \<Rightarrow> Inr \<bar>delta1 + delta2\<bar>))
          | _ \<Rightarrow>
              let P_N = P * 1000
              in if 48 * E * I = 0 then Inl ZeroDivisionError
                 else Inr \<bar>P_N * L_mm ^ 3 / (48 * E * I) * 1000\<bar>))"

section \<open>Fatigue\<close>

record fatigue_cat =
  Cf :: real
  thresh :: real

text \<open>The table \<^verbatim>\<open>FATIGUE_CATS\<close>, without its description strings.\<close>

definition FATIGUE_CATS :: "string \<rightharpoonup> fatigue_cat" where
  "FATIGUE_CATS = map_of
     [(''A'', \<lparr>Cf = 25000000000, thresh = 165\<rparr>),
      (''B'', \<lparr>Cf = 12000000000, thresh = 110\<rparr>),
      (''C'', \<lparr>Cf = 4400000000, thresh = 69\<rparr>),
      (''D'', \<lparr>Cf = 2200000000, thresh = 48\<rparr>),
      (''E'', \<lparr>Cf = 1100000000, thresh = 31\<rparr>),
      (''F'', \<lparr>Cf = 15000000000, thresh = 55\<rparr>)]"

text \<open>\<^verbatim>\<open>FATIGUE_CATS.get(cat, FATIGUE_CATS['E'])\<close>\<close>

definition fatigue_cat_of :: "string \<Rightarrow> fatigue_cat" where
  "fatigue_cat_of cat =
     (case FATIGUE_CATS cat of
        Some cf \<Rightarrow> cf
      | None \<Rightarrow> \<lparr>Cf = 1100000000, thresh = 31\<rparr>)"

record fatigue_result =
  sr :: real
  Fsr :: real
  ratio :: real

text \<open>
  \<^verbatim>\<open>check_fatigue(sec, M, N, cat)\<close>. The power \<^verbatim>\<open>x ** (1/3)\<close> has a positive base
  here (\<open>Cf > 0\<close> and \<open>max(N, 1) \<ge> 1\<close>), where it is the real power \<open>x powr (1/3)\<close>.
\<close>

definition check_fatigue :: "Section \<Rightarrow> real \<Rightarrow> real \<Rightarrow> string \<Rightarrow> fatigue_result" where
  "check_fatigue sec M N cat =
     (if Sx sec \<le> 0 then \<lparr>sr = 0, Fsr = 999, ratio = 0\<rparr>
      else
        let sr1 = M * 1000000 / Sx sec;
            cf = fatigue_cat_of cat;
            Fsr1 = max (thresh cf) ((Cf cf / max N 1) powr (1 / 3))
        in \<lparr>sr = sr1, Fsr = Fsr1, ratio = sr1 / max Fsr1 1\<rparr>)"

section \<open>Notions used in the statements\<close>

text \<open>The descriptions that the two-crane section of \<^verbatim>\<open>find_critical\<close> writes.\<close>

fun two_crane_desc :: "case_desc \<Rightarrow> bool" where
  "two_crane_desc (TwoMaxM _ _) = True"
| "two_crane_desc TwoMaxV_C1 = True"
| "two_crane_desc TwoMaxV_C2 = True"
| "two_crane_desc TwoMaxReaction = True"
| "two_crane_desc TwoMaxV_Heavy = True"
| "two_crane_desc _ = False"

text \<open>
  \<open>y\<close> is the first element of \<open>xs\<close> with the largest key: no element has a
  larger key, and every element listed before it has a strictly smaller one.
\<close>

definition first_maximiser :: "('a \<Rightarrow> real) \<Rightarrow> 'a list \<Rightarrow> 'a \<Rightarrow> bool" where
  "first_maximiser key xs y \<longleftrightarrow>
     (\<exists>i<length xs. y = xs ! i
        \<and> (\<forall>j<length xs. key (xs ! j) \<le> key (xs ! i))
        \<and> (\<forall>j<i. key (xs ! j) < key (xs ! i)))"

text \<open>A load case with the given moment, shear and reactions, for the examples.\<close>

definition example_case :: "real \<Rightarrow> real \<Rightarrow> real \<Rightarrow> real \<Rightarrow> LoadCase" where
  "example_case m v rl rr =
     \<lparr>desc = NoDesc, wheels = [], M_max = m, M_pos = 0, V_max = v, V_pos = 0,
      R_left = rl, R_right = rr, positions = [], moments = [], shears = []\<rparr>"

section \<open>Properties of the analysis\<close>

lemma analyze_load_reactions:
  assumes "ws \<noteq> []"
  shows "\<exists>lc. analyze_load L ws = Some lc
           \<and> R_right lc = sum_list (map (\<lambda>w. Pv w * pos w) ws) / max L 0.1
           \<and> R_left lc = sum_list (map Pv ws) - R_right lc"
  using assms by (simp add: analyze_load_def Let_def)



text \<open>
  Claim C2 (as amended). For every non-empty wheel list \<^verbatim>\<open>analyze_load\<close> computes the
  right reaction as the sum of \<open>Pv * pos\<close> over the wheels divided by
  \<open>max(span, 0.1)\<close>, and the left reaction as the sum of \<open>Pv\<close> minus the right
  reaction; the divisor is the span itself for every span of at least \<open>0.1\<close>.
\<close>

theorem analyze_load_reaction_formulas:
  assumes "ws \<noteq> []"
  shows "\<exists>lc. analyze_load L ws = Some lc
           \<and> R_right lc = sum_list (map (\<lambda>w. Pv w * pos w) ws) / max L 0.1
           \<and> R_left lc = sum_list (map Pv ws) - R_right lc
           \<and> (0.1 \<le> L \<longrightarrow> R_right lc = sum_list (map (\<lambda>w. Pv w * pos w) ws) / L)"
proof -
  from analyze_load_reactions [OF assms, of L] obtain lc where lc:
    "analyze_load L ws = Some lc"
    "R_right lc = sum_list (map (\<lambda>w. Pv w * pos w) ws) / max L 0.1"
    "R_left lc = sum_list (map Pv ws) - R_right lc"
    by blast
  have "0.1 \<le> L \<longrightarrow> max L 0.1 = L" by simp
  with lc show ?thesis by auto
qed

theorem analyze_load_reaction_formulas_witness:
  "\<exists>lc. analyze_load 10 [\<lparr>crane_id_w = 1, wheel_id = 1, pos = 4, Pv = 50, Ph = 5\<rparr>] = Some lc
        \<and> R_right lc = 20 \<and> R_left lc = 30"
  using analyze_load_reaction_formulas
    [of "[\<lparr>crane_id_w = 1, wheel_id = 1, pos = 4, Pv = 50, Ph = 5\<rparr>]" 10]
  by auto

theorem analyze_load_short_span_counterexample:
  "map_option R_right
     (analyze_load (1 / 20) [\<lparr>crane_id_w = 1, wheel_id = 1, pos = 1 / 40, Pv = 40, Ph = 0\<rparr>])
     = Some 10
   \<and> (0::real) < 1 / 20
   \<and> (10::real) \<noteq> 40 * (1 / 40) / (1 / 20)"
proof -
  from analyze_load_reactions
    [of "[\<lparr>crane_id_w = 1, wheel_id = 1, pos = 1 / 40, Pv = 40, Ph = 0\<rparr>]" "1 / 20"]
  obtain lc where
    "analyze_load (1 / 20) [\<lparr>crane_id_w = 1, wheel_id = 1, pos = 1 / 40, Pv = 40, Ph = 0\<rparr>] = Some lc"
    "R_right lc = 10"
    by auto
  then show ?thesis by simp
qed

section \<open>Properties of the wheel-load model\<close>

text \<open>
  Claim C4. For a crane not in direct-input mode with capacity 10 t, bridge weight 5 t,
  trolley 0.72 t, bridge span 20 m, minimum hook approach 1 m, wheel base 2.2 m and
  2 wheels per rail, \<^verbatim>\<open>calc_wheel_loads\<close> returns and sets \<open>R_max\<close> to
  \<open>P_bridge/2 + (P_lift + P_trolley) * (20 - 1) / 20\<close> with \<open>P_lift = 10 * 9.81\<close>,
  \<open>P_trolley = 0.72 * 9.81\<close> and \<open>P_bridge = 5 * 9.81\<close>.
\<close>

theorem calc_wheel_loads_scenario_1:
  assumes "\<not> use_direct_input c"
    and "capacity_tonnes c = 10" and "bridge_weight c = 5" and "trolley_weight c = 0.72"
    and "bridge_span c = 20" and "min_hook_approach c = 1"
    and "wheel_base c = 2.2" and "num_wheels c = 2"
  shows "\<exists>c'. calc_wheel_loads c = Inr c'
           \<and> R_max c' = (5 * 9.81) / 2 + (10 * 9.81 + 0.72 * 9.81) * (20 - 1) / 20"
  using assms by (simp add: calc_wheel_loads_def Let_def GRAVITY_def)

theorem calc_wheel_loads_scenario_1_witness:
  "\<exists>c'. calc_wheel_loads (CraneData_init\<lparr>bridge_span := 20\<rparr>) = Inr c'
        \<and> R_max c' = (5 * 9.81) / 2 + (10 * 9.81 + 0.72 * 9.81) * (20 - 1) / 20"
  using calc_wheel_loads_scenario_1 [of "CraneData_init\<lparr>bridge_span := 20\<rparr>"]
  by (simp add: CraneData_init_def)

section \<open>Properties of the classification\<close>

lemma check_compact_returns:
  assumes "0 < Fy"
  shows "check_compact sec Fy =
     Inr \<lparr>flg = classify (bf_top sec / max (2 * tf_top sec) 1)
                   (0.38 * sqrt (E_STEEL / Fy)) (1.0 * sqrt (E_STEEL / Fy)),
          web = classify (hw sec / max (tw sec) 1)
                   (3.76 * sqrt (E_STEEL / Fy)) (5.70 * sqrt (E_STEEL / Fy)),
          lf = bf_top sec / max (2 * tf_top sec) 1,
          lpf = 0.38 * sqrt (E_STEEL / Fy), lrf = 1.0 * sqrt (E_STEEL / Fy),
          lw = hw sec / max (tw sec) 1,
          lpw = 3.76 * sqrt (E_STEEL / Fy), lrw = 5.70 * sqrt (E_STEEL / Fy)\<rparr>"
proof -
  have "sqrt_quot E_STEEL Fy = Inr (sqrt (E_STEEL / Fy))"
    using assms by (simp add: sqrt_quot_def py_sqrt_def E_STEEL_def)
  then show ?thesis by (simp add: check_compact_def Let_def)
qed

lemma classify_iff:
  assumes "lp \<le> lr"
  shows "(classify l lp lr = Compact \<longleftrightarrow> l \<le> lp)
       \<and> (classify l lp lr = Noncompact \<longleftrightarrow> lp < l \<and> l \<le> lr)
       \<and> (classify l lp lr = Slender \<longleftrightarrow> lr < l)"
  using assms by (auto simp: classify_def)

lemma sqrt_625: "sqrt (E_STEEL / 320) = 25"
  by (rule real_sqrt_unique) (simp_all add: E_STEEL_def)

text \<open>
  Claim C3 (as amended). For a positive yield strength \<^verbatim>\<open>check_compact\<close> returns, and
  with the web ratio \<open>lw = hw / max(tw, 1)\<close> (which is \<open>hw / tw\<close> for \<open>tw \<ge> 1\<close>)
  the web is Compact exactly when \<open>lw \<le> 3.76 * sqrt(E/Fy)\<close>, Slender exactly when
  \<open>lw > 5.70 * sqrt(E/Fy)\<close>, and Noncompact in between: the lower boundary value is
  Compact, the upper boundary value is Noncompact.
\<close>

theorem check_compact_web_classes:
  assumes "0 < Fy"
  shows "\<exists>r. check_compact sec Fy = Inr r
           \<and> lw r = hw sec / max (tw sec) 1
           \<and> lpw r = 3.76 * sqrt (E_STEEL / Fy)
           \<and> lrw r = 5.70 * sqrt (E_STEEL / Fy)
           \<and> (web r = Compact \<longleftrightarrow> lw r \<le> lpw r)
           \<and> (web r = Noncompact \<longleftrightarrow> lpw r < lw r \<and> lw r \<le> lrw r)
           \<and> (web r = Slender \<longleftrightarrow> lrw r < lw r)"
proof -
  have "0 \<le> sqrt (E_STEEL / Fy)" using assms by (simp add: E_STEEL_def)
  then have le: "3.76 * sqrt (E_STEEL / Fy) \<le> 5.70 * sqrt (E_STEEL / Fy)"
    by (simp add: mult_right_mono)
  show ?thesis
    unfolding check_compact_returns [OF assms]
    using classify_iff [OF le, of "hw sec / max (tw sec) 1"]
    by simp
qed

theorem check_compact_web_classes_witness:
  "\<exists>r. check_compact (Section_init\<lparr>hw := 940, tw := 10\<rparr>) 320 = Inr r
           \<and> lw r = 94 \<and> lpw r = 94 \<and> web r = Compact"
  using check_compact_web_classes [of 320 "Section_init\<lparr>hw := 940, tw := 10\<rparr>"]
  by (auto simp: Section_init_def sqrt_625 classify_def)

theorem check_compact_lower_boundary_counterexample:
  "map_sum id web (check_compact (Section_init\<lparr>hw := 940, tw := 10\<rparr>) 320) = Inr Compact
   \<and> (940::real) / 10 = 3.76 * sqrt (E_STEEL / 320)"
  by (simp add: check_compact_returns Section_init_def sqrt_625 classify_def)

section \<open>Properties of the governing-case selector\<close>

lemma argmax_first_snoc:
  "argmax_first key b (xs @ [x]) =
     (if key x > key (argmax_first key b xs) then x else argmax_first key b xs)"
  by (induction xs arbitrary: b) simp_all

lemma argmax_first_first_maximiser:
  "first_maximiser key (b # xs) (argmax_first key b xs)"
proof (induction xs rule: rev_induct)
  case Nil
  show ?case by (simp add: first_maximiser_def)
next
  case (snoc x xs)
  then obtain i where i: "i < length (b # xs)"
    "argmax_first key b xs = (b # xs) ! i"
    "\<forall>j<length (b # xs). key ((b # xs) ! j) \<le> key ((b # xs) ! i)"
    "\<forall>j<i. key ((b # xs) ! j) < key ((b # xs) ! i)"
    unfolding first_maximiser_def by blast
  have old: "(b # xs @ [x]) ! j = (b # xs) ! j" if "j < length (b # xs)" for j
    using that by (metis append_Cons nth_append)
  have new: "(b # xs @ [x]) ! length (b # xs) = x"
    by (metis append_Cons nth_append_length)
  show ?case
  proof (cases "key x > key (argmax_first key b xs)")
    case True
    have "\<forall>j<length (b # xs @ [x]). key ((b # xs @ [x]) ! j) \<le> key x"
    proof (intro allI impI)
      fix j assume "j < length (b # xs @ [x])"
      then consider "j < length (b # xs)" | "j = length (b # xs)" by fastforce
      then show "key ((b # xs @ [x]) ! j) \<le> key x"
      proof cases
        case 1
        then show ?thesis using old [OF 1] i(2,3) True by fastforce
      next
        case 2
        then show ?thesis using new by simp
      qed
    qed
    moreover have "\<forall>j<length (b # xs). key ((b # xs @ [x]) ! j) < key x"
      using old i(2,3) True by fastforce
    ultimately show ?thesis
      unfolding first_maximiser_def argmax_first_snoc using True new
      by (intro exI [of _ "length (b # xs)"]) simp
  next
    case False
    have "\<forall>j<length (b # xs @ [x]). key ((b # xs @ [x]) ! j) \<le> key ((b # xs) ! i)"
    proof (intro allI impI)
      fix j assume "j < length (b # xs @ [x])"
      then consider "j < length (b # xs)" | "j = length (b # xs)" by fastforce
      then show "key ((b # xs @ [x]) ! j) \<le> key ((b # xs) ! i)"
      proof cases
        case 1
        then show ?thesis using old [OF 1] i(3) by simp
      next
        case 2
        then show ?thesis using new False i(2) by simp
      qed
    qed
    moreover have "\<forall>j<i. key ((b # xs @ [x]) ! j) < key ((b # xs) ! i)"
      using old i(1,4) by (metis less_trans)
    moreover have "(b # xs @ [x]) ! i = (b # xs) ! i" using old i(1) by blast
    ultimately show ?thesis
      unfolding first_maximiser_def argmax_first_snoc using False i(1,2)
      by (intro exI [of _ i]) simp
  qed
qed

lemma first_maximiser_3:
  "first_maximiser key [a, b, c] y \<longleftrightarrow>
     (y = a \<and> key b \<le> key a \<and> key c \<le> key a)
     \<or> (y = b \<and> key a < key b \<and> key c \<le> key b)
     \<or> (y = c \<and> key a < key c \<and> key b < key c)"
proof -
  have ex3: "(\<exists>i<Suc (Suc (Suc 0)). P i) \<longleftrightarrow> P 0 \<or> P (Suc 0) \<or> P (Suc (Suc 0))" for P
    by (auto simp: less_Suc_eq)
  have all3: "(\<forall>i<Suc (Suc (Suc 0)). P i) \<longleftrightarrow> P 0 \<and> P (Suc 0) \<and> P (Suc (Suc 0))" for P
    by (auto simp: less_Suc_eq)
  have all2: "(\<forall>i<Suc (Suc 0). P i) \<longleftrightarrow> P 0 \<and> P (Suc 0)" for P
    by (auto simp: less_Suc_eq)
  have "first_maximiser key [a, b, c] y \<longleftrightarrow>
     (y = a \<and> key a \<le> key a \<and> key b \<le> key a \<and> key c \<le> key a)
     \<or> (y = b \<and> (key a \<le> key b \<and> key b \<le> key b \<and> key c \<le> key b) \<and> key a < key b)
     \<or> (y = c \<and> (key a \<le> key c \<and> key b \<le> key c \<and> key c \<le> key c)
          \<and> key a < key c \<and> key b < key c)"
    unfolding first_maximiser_def by (simp add: ex3 all3 all2)
  also have "\<dots> \<longleftrightarrow>
     (y = a \<and> key b \<le> key a \<and> key c \<le> key a)
     \<or> (y = b \<and> key a < key b \<and> key c \<le> key b)
     \<or> (y = c \<and> key a < key c \<and> key b < key c)"
    by auto
  finally show ?thesis .
qed

text \<open>
  Claim C8. \<^verbatim>\<open>get_governing\<close> applied to an empty list returns the empty mapping
  (no error); applied to a non-empty list it returns the mapping with the three keys
  whose values are the first-listed cases maximising \<open>|M_max|\<close> (moment), \<open>V_max\<close>
  (shear) and \<open>max(R_left, R_right)\<close> (reaction): ties go to the case listed first.
\<close>

theorem get_governing_selects:
  "get_governing [] = Map.empty
   \<and> (cs \<noteq> [] \<longrightarrow>
        (\<exists>m v r. get_governing cs = [Moment \<mapsto> m, Shear \<mapsto> v, Reaction \<mapsto> r]
           \<and> first_maximiser (\<lambda>c. \<bar>M_max c\<bar>) cs m
           \<and> first_maximiser (\<lambda>c. V_max c) cs v
           \<and> first_maximiser (\<lambda>c. max (R_left c) (R_right c)) cs r))"
proof (cases cs)
  case Nil
  then show ?thesis by (simp add: get_governing_def)
next
  case (Cons c rest)
  have "get_governing (c # rest) =
          [Moment \<mapsto> argmax_first (\<lambda>c. \<bar>M_max c\<bar>) c rest,
           Shear \<mapsto> argmax_first (\<lambda>c. V_max c) c rest,
           Reaction \<mapsto> argmax_first (\<lambda>c. max (R_left c) (R_right c)) c rest]"
    by (simp add: get_governing_def)
  then show ?thesis
    unfolding Cons using argmax_first_first_maximiser [of _ c rest]
    by (simp add: get_governing_def) blast
qed

theorem get_governing_selects_witness:
  "get_governing [example_case (- 30) 20 20 5, example_case 30 20 5 20, example_case 10 25 12 13]
     = [Moment \<mapsto> example_case (- 30) 20 20 5,
        Shear \<mapsto> example_case 10 25 12 13,
        Reaction \<mapsto> example_case (- 30) 20 20 5]"
proof -
  let ?cs = "[example_case (- 30) 20 20 5, example_case 30 20 5 20, example_case 10 25 12 13]"
  from get_governing_selects [of ?cs] obtain m v r where
    g: "get_governing ?cs = [Moment \<mapsto> m, Shear \<mapsto> v, Reaction \<mapsto> r]"
    and fm: "first_maximiser (\<lambda>c. \<bar>M_max c\<bar>) ?cs m"
    and fv: "first_maximiser (\<lambda>c. V_max c) ?cs v"
    and fr: "first_maximiser (\<lambda>c. max (R_left c) (R_right c)) ?cs r"
    by auto
  from fm have "m = example_case (- 30) 20 20 5"
    unfolding first_maximiser_3 by (simp add: example_case_def)
  moreover from fv have "v = example_case 10 25 12 13"
    unfolding first_maximiser_3 by (simp add: example_case_def)
  moreover from fr have "r = example_case (- 30) 20 20 5"
    unfolding first_maximiser_3 by (simp add: example_case_def)
  ultimately show ?thesis using g by simp
qed

section \<open>Properties of the fatigue check\<close>

lemma fatigue_thresh_ge: "31 \<le> thresh (fatigue_cat_of cat)"
  by (simp add: fatigue_cat_of_def FATIGUE_CATS_def)

lemma cube_root_550: "(550::real) powr (1 / 3) < 31"
proof -
  have "(550::real) powr (1 / 3) < 29791 powr (1 / 3)"
    by (rule powr_less_mono2) simp_all
  also have "(29791::real) = 31 powr 3" by simp
  also have "((31::real) powr 3) powr (1 / 3) = 31" by (simp add: powr_powr)
  finally show ?thesis .
qed

text \<open>
  Claim C6. For every section with \<open>Sx > 0\<close>, moment \<open>M\<close>, cycle count \<open>N \<ge> 1\<close>
  and fatigue category (an unknown category is read as category E),
  \<^verbatim>\<open>check_fatigue\<close> returns the ratio of the stress range \<open>M * 1e6 / Sx\<close> to
  \<open>max(thresh, (Cf / N)^(1/3))\<close>; for category E at \<open>N = 2,000,000\<close> the allowable
  range is the threshold 31 and the ratio is the stress range divided by 31.
\<close>

theorem check_fatigue_ratio:
  assumes "0 < Sx sec" and "1 \<le> N"
  shows "ratio (check_fatigue sec M N cat)
           = (M * 1000000 / Sx sec)
             / max (thresh (fatigue_cat_of cat)) ((Cf (fatigue_cat_of cat) / N) powr (1 / 3))
       \<and> Fsr (check_fatigue sec M 2000000 ''E'') = 31
       \<and> ratio (check_fatigue sec M 2000000 ''E'') = (M * 1000000 / Sx sec) / 31"
proof -
  have n: "max N 1 = N" using assms by simp
  have "1 \<le> max (thresh (fatigue_cat_of cat)) ((Cf (fatigue_cat_of cat) / N) powr (1 / 3))"
    using fatigue_thresh_ge [of cat] by simp
  then have one: "max (max (thresh (fatigue_cat_of cat))
                 ((Cf (fatigue_cat_of cat) / N) powr (1 / 3))) 1
        = max (thresh (fatigue_cat_of cat)) ((Cf (fatigue_cat_of cat) / N) powr (1 / 3))"
    by simp
  have e: "fatigue_cat_of ''E'' = \<lparr>Cf = 1100000000, thresh = 31\<rparr>"
    by (simp add: fatigue_cat_of_def FATIGUE_CATS_def)
  have m: "max (31::real) (550 powr (1 / 3)) = 31"
    using cube_root_550 by simp
  have first: "ratio (check_fatigue sec M N cat)
           = (M * 1000000 / Sx sec)
             / max (thresh (fatigue_cat_of cat)) ((Cf (fatigue_cat_of cat) / N) powr (1 / 3))"
    using assms(1) by (simp add: check_fatigue_def Let_def n one)
  have second: "Fsr (check_fatigue sec M 2000000 ''E'') = 31"
    using assms(1) by (simp add: check_fatigue_def Let_def e m)
  have third: "ratio (check_fatigue sec M 2000000 ''E'') = (M * 1000000 / Sx sec) / 31"
    using assms(1) by (simp add: check_fatigue_def Let_def e m)
  from first second third show ?thesis by blast
qed

theorem check_fatigue_ratio_witness:
  "ratio (check_fatigue (Section_init\<lparr>Sx := 1000000\<rparr>) 62 2000000 ''E'') = 2"
  using check_fatigue_ratio [of "Section_init\<lparr>Sx := 1000000\<rparr>" 2000000 62 "''E''"]
  by simp

section \<open>Properties of the section property model\<close>

lemma calc_props_Zx:
  assumes "calc_props s = Inr s'"
  shows "Zx s' = 1.12 * Sx s'"
  using assms
  by (auto simp: calc_props_def split: if_splits sum.splits)

lemma py_sqrt_nonneg: "0 \<le> x \<Longrightarrow> py_sqrt x = Inr (sqrt x)"
  by (simp add: py_sqrt_def)

lemma props_Iy_nonneg:
  assumes "0 \<le> bf_top s" "0 \<le> tf_top s" "0 \<le> bf_bot s" "0 \<le> tf_bot s"
    "0 \<le> tw s" "0 \<le> hw s"
  shows "0 \<le> props_Iy s"
  using assms by (simp add: props_Iy_def)

lemma props_Ix_nonneg:
  assumes "0 \<le> bf_top s" "0 \<le> tf_top s" "0 \<le> bf_bot s" "0 \<le> tf_bot s"
    "0 \<le> tw s" "0 \<le> hw s" "0 \<le> cap_Iy s"
  shows "0 \<le> props_Ix s"
  using assms by (simp add: props_Ix_def Let_def)

lemma props_Iy_Cw_nonneg:
  assumes "0 \<le> props_Iy s"
  shows "0 \<le> props_Iy s * props_Cw s"
  using assms by (simp add: props_Cw_def)

lemma props_A_cap_pos:
  assumes "0 \<le> bf_top s" "0 \<le> tf_top s" "0 \<le> bf_bot s" "0 \<le> tf_bot s"
    "0 \<le> tw s" "0 \<le> hw s" "has_cap s \<and> cap_A s > 0"
  shows "props_A s > 0"
  using assms by (simp add: props_A_def props_A_I_def add_nonneg_pos)

lemma calc_props_returns:
  assumes "0 \<le> bf_top s" "0 \<le> tf_top s" "0 \<le> bf_bot s" "0 \<le> tf_bot s"
    "0 \<le> tw s" "0 \<le> hw s" "0 \<le> cap_Iy s"
  shows "\<exists>s'. calc_props s = Inr s'"
proof -
  have a: "\<not> (has_cap s \<and> cap_A s > 0 \<and> props_A s = 0)"
    using props_A_cap_pos [of s] assms by auto
  have m: "0 < max (props_A s) 1" "0 < max (props_Sx s) 1" by simp_all
  have iy: "0 \<le> props_Iy s" by (rule props_Iy_nonneg [OF assms(1-6)])
  have 1: "py_sqrt (props_Ix s / max (props_A s) 1)
             = Inr (sqrt (props_Ix s / max (props_A s) 1))"
    using props_Ix_nonneg [OF assms] m(1) by (intro py_sqrt_nonneg) simp
  have 2: "py_sqrt (props_Iy s / max (props_A s) 1)
             = Inr (sqrt (props_Iy s / max (props_A s) 1))"
    using iy m(1) by (intro py_sqrt_nonneg) simp
  have 3: "py_sqrt (props_Iy s * props_Cw s) = Inr (sqrt (props_Iy s * props_Cw s))"
    using props_Iy_Cw_nonneg [OF iy] by (intro py_sqrt_nonneg)
  have 4: "py_sqrt (sqrt (props_Iy s * props_Cw s) / max (props_Sx s) 1)
             = Inr (sqrt (sqrt (props_Iy s * props_Cw s) / max (props_Sx s) 1))"
    using m(2) props_Iy_Cw_nonneg [OF iy]
    by (intro py_sqrt_nonneg divide_nonneg_pos) simp_all
  show ?thesis
    using a by (simp add: calc_props_def 1 2 3 4)
qed

text \<open>
  Claim C10. Whenever \<^verbatim>\<open>calc_props\<close> returns, built-up or with a cap channel, the
  plastic modulus it has set is \<open>Zx = 1.12 * Sx\<close>, a fixed multiple of the elastic
  modulus; and it does return for every geometry with non-negative dimensions.
\<close>

theorem calc_props_plastic_modulus:
  "(\<forall>s'. calc_props s = Inr s' \<longrightarrow> Zx s' = 1.12 * Sx s')
   \<and> (0 \<le> bf_top s \<and> 0 \<le> tf_top s \<and> 0 \<le> bf_bot s \<and> 0 \<le> tf_bot s
        \<and> 0 \<le> tw s \<and> 0 \<le> hw s \<and> 0 \<le> cap_Iy s \<longrightarrow>
        (\<exists>s'. calc_props s = Inr s' \<and> Zx s' = 1.12 * Sx s'))"
  using calc_props_Zx [of s] calc_props_returns [of s] by blast

theorem calc_props_plastic_modulus_witness:
  "\<exists>s'. calc_props (Section_init\<lparr>d := 500, bf_top := 200, tf_top := 16, bf_bot := 150,
                                   tf_bot := 12, tw := 10, hw := 472\<rparr>) = Inr s'
        \<and> Zx s' = 1.12 * Sx s'"
  using calc_props_plastic_modulus
    [of "Section_init\<lparr>d := 500, bf_top := 200, tf_top := 16, bf_bot := 150,
                       tf_bot := 12, tw := 10, hw := 472\<rparr>"]
  by (simp add: Section_init_def)

section \<open>Properties of the critical load cases\<close>

lemma labelled_desc: "lc \<in> set (labelled dsc cs) \<Longrightarrow> desc lc = dsc"
  by (auto simp: labelled_def split: option.splits)

lemma analyze_load_Some:
  assumes "ws \<noteq> []"
  shows "\<exists>lc. analyze_load L ws = Some lc"
  using analyze_load_reactions [OF assms, of L] by blast

lemma crane_wheels_nonempty: "1 \<le> num_wheels c \<Longrightarrow> crane_wheels cid c p pv ph \<noteq> []"
  by (simp add: crane_wheels_def)

lemma wheel_load_with_impact_returns:
  assumes "use_direct_input c \<and> 0 < direct_max_wheel_load c \<or> bridge_span c \<noteq> 0"
    and "1 \<le> num_wheels c"
  shows "\<exists>pv. wheel_load_with_impact c = Inr pv"
  using assms by (auto simp: wheel_load_with_impact_def calc_wheel_loads_def Let_def)

lemma lateral_per_wheel_returns:
  assumes "1 \<le> num_wheels c"
  shows "\<exists>ph. lateral_per_wheel c = Inr ph"
  using assms by (auto simp: lateral_per_wheel_def py_div_def Let_def)

lemma single_crane_cases_desc:
  assumes "lc \<in> set (single_crane_cases L c pv ph)"
  shows "\<not> two_crane_desc (desc lc)"
  using assms
  by (auto simp: single_crane_cases_def Let_def split: if_splits dest!: labelled_desc)

lemma single_crane_cases_shear:
  assumes "wheel_base c * of_int (num_wheels c - 1) \<le> L" and "1 \<le> num_wheels c"
  shows "(\<exists>lc\<in>set (single_crane_cases L c pv ph).
            desc lc = SingleMaxVLeft (crane_id c) (capacity_tonnes c))
       \<and> (\<exists>lc\<in>set (single_crane_cases L c pv ph).
            desc lc = SingleMaxVRight (crane_id c) (capacity_tonnes c))"
proof -
  have ex: "\<exists>lc. analyze_load L (crane_wheels (crane_id c) c p pv ph) = Some lc" for p
    using analyze_load_Some [OF crane_wheels_nonempty [OF assms(2)]] by blast
  show ?thesis
    using assms(1) ex [of 0] ex [of "L - wheel_base c * (real_of_int (num_wheels c) - 1)"]
    by (auto simp: single_crane_cases_def Let_def labelled_def split: option.splits)
qed

lemma two_crane_cases_infeasible:
  assumes "wheel_base c1 * of_int (num_wheels c1 - 1) + (buffer_right c1 + buffer_left c2)
             + wheel_base c2 * of_int (num_wheels c2 - 1) > L"
  shows "two_crane_cases L c1 c2 pv1 ph1 pv2 ph2 = []"
  using assms by (simp add: two_crane_cases_def Let_def)

text \<open>
  Claim C7. Take a span \<open>L\<close> and two cranes whose wheel-load model does not raise
  (at least one wheel, and a non-zero bridge span unless the wheel load is supplied
  directly), each fitting the span on its own, \<open>wheel_base * (num_wheels - 1) \<le> L\<close>,
  while \<open>c1_length + (buffer_right of crane 1 + buffer_left of crane 2) + c2_length\<close>
  exceeds \<open>L\<close>. Then \<^verbatim>\<open>find_critical\<close> raises no error and returns exactly the cases
  of crane 1 alone followed by the cases of crane 2 alone: no case of the result is a
  two-crane case, and the shear cases at the left and at the right support of each
  crane are among them.
\<close>

theorem find_critical_infeasible_pair:
  assumes "use_direct_input c1 \<and> 0 < direct_max_wheel_load c1 \<or> bridge_span c1 \<noteq> 0"
    and "use_direct_input c2 \<and> 0 < direct_max_wheel_load c2 \<or> bridge_span c2 \<noteq> 0"
    and "1 \<le> num_wheels c1" and "1 \<le> num_wheels c2"
    and "wheel_base c1 * of_int (num_wheels c1 - 1) \<le> L"
    and "wheel_base c2 * of_int (num_wheels c2 - 1) \<le> L"
    and "wheel_base c1 * of_int (num_wheels c1 - 1) + (buffer_right c1 + buffer_left c2)
             + wheel_base c2 * of_int (num_wheels c2 - 1) > L"
  shows "\<exists>r1 r2. find_critical L [c1] = Inr r1 \<and> find_critical L [c2] = Inr r2
           \<and> find_critical L [c1, c2] = Inr (r1 @ r2)
           \<and> (\<forall>lc\<in>set (r1 @ r2). \<not> two_crane_desc (desc lc))
           \<and> (\<exists>lc\<in>set r1. desc lc = SingleMaxVLeft (crane_id c1) (capacity_tonnes c1))
           \<and> (\<exists>lc\<in>set r1. desc lc = SingleMaxVRight (crane_id c1) (capacity_tonnes c1))
           \<and> (\<exists>lc\<in>set r2. desc lc = SingleMaxVLeft (crane_id c2) (capacity_tonnes c2))
           \<and> (\<exists>lc\<in>set r2. desc lc = SingleMaxVRight (crane_id c2) (capacity_tonnes c2))"
proof -
  obtain pv1 ph1 pv2 ph2 where dm:
    "wheel_load_with_impact c1 = Inr pv1" "lateral_per_wheel c1 = Inr ph1"
    "wheel_load_with_impact c2 = Inr pv2" "lateral_per_wheel c2 = Inr ph2"
    using wheel_load_with_impact_returns [OF assms(1,3)] lateral_per_wheel_returns [OF assms(3)]
      wheel_load_with_impact_returns [OF assms(2,4)] lateral_per_wheel_returns [OF assms(4)]
    by blast
  let ?r1 = "single_crane_cases L c1 pv1 ph1"
  let ?r2 = "single_crane_cases L c2 pv2 ph2"
  have f1: "find_critical L [c1] = Inr ?r1"
    by (simp add: find_critical_def dm)
  have f2: "find_critical L [c2] = Inr ?r2"
    by (simp add: find_critical_def dm)
  have f12: "find_critical L [c1, c2] = Inr (?r1 @ ?r2)"
    by (simp add: find_critical_def dm two_crane_cases_infeasible [OF assms(7)])
  have no2: "\<forall>lc\<in>set (?r1 @ ?r2). \<not> two_crane_desc (desc lc)"
    using single_crane_cases_desc by auto
  show ?thesis
    using f1 f2 f12 no2 single_crane_cases_shear [OF assms(5,3)]
      single_crane_cases_shear [OF assms(6,4)]
    by blast
qed

theorem find_critical_infeasible_pair_witness:
  "\<exists>r1 r2. find_critical 4 [CraneData_init] = Inr r1
           \<and> find_critical 4 [CraneData_init\<lparr>crane_id := 2\<rparr>] = Inr r2
           \<and> find_critical 4 [CraneData_init, CraneData_init\<lparr>crane_id := 2\<rparr>] = Inr (r1 @ r2)
           \<and> (\<forall>lc\<in>set (r1 @ r2). \<not> two_crane_desc (desc lc))
           \<and> (\<exists>lc\<in>set r1. desc lc = SingleMaxVLeft 1 10)
           \<and> (\<exists>lc\<in>set r1. desc lc = SingleMaxVRight 1 10)
           \<and> (\<exists>lc\<in>set r2. desc lc = SingleMaxVLeft 2 10)
           \<and> (\<exists>lc\<in>set r2. desc lc = SingleMaxVRight 2 10)"
  using find_critical_infeasible_pair [of CraneData_init "CraneData_init\<lparr>crane_id := 2\<rparr>" 4]
  by (simp add: CraneData_init_def)

section \<open>Properties of the shear strength\<close>












section \<open>The deflection under two wheels\<close>

text \<open>
  Claim C9, at a concrete input. For \<open>Ix = 1e9 mm^4\<close>, two wheels of 100 kN,
  \<open>L = 10 m\<close> and a wheel base of 2 m the wheels stand at 4000 mm and 6000 mm, and the
  point-load formula (loads in N, lengths in mm) gives \<open>59/3 mm\<close> at midspan for the
  pair; \<^verbatim>\<open>calc_actual_deflection\<close> returns \<open>59000/3\<close>. For one wheel of 200 kN the
  midspan formula \<open>P * L^3 / (48 * E * I)\<close> gives \<open>125/6 mm\<close>; the function returns
  \<open>62500/3\<close>. Both values are 1000 times the deflection in millimetres.
\<close>

theorem calc_actual_deflection_example:
  "calc_actual_deflection (Section_init\<lparr>Ix := 1000000000\<rparr>) [100, 100] 10 2
     = Inr (59000 / 3)
   \<and> (100000 * 4000 * 5000 * (10000\<^sup>2 - 4000\<^sup>2 - 5000\<^sup>2) / (6 * 200000 * 1000000000 * 10000)
      + 100000 * 4000 * 5000 * (10000\<^sup>2 - 4000\<^sup>2 - 5000\<^sup>2) / (6 * 200000 * 1000000000 * 10000)
      = (59 / 3 :: real))
   \<and> calc_actual_deflection (Section_init\<lparr>Ix := 1000000000\<rparr>) [200] 10 2
     = Inr (62500 / 3)
   \<and> (200000 * 10000 ^ 3 / (48 * 200000 * 1000000000) = (125 / 6 :: real))"
  by (simp add: calc_actual_deflection_def deflection_at_point_def Let_def E_STEEL_def
      Section_init_def)

end
